theory Spec2Isabelle
  imports Main "HOL-Library.Char_ord" "HOL-Library.List_Lexorder" "HOL-Library.Product_Lexorder"
    "HOL-Library.Option_ord"
begin

section \<open>Data model (src/models/index.js)\<close>

text \<open>
  The five ElectroDB entities become records, one field per attribute. Field names carry
  a prefix for their entity (\<open>u_\<close> User, \<open>g_\<close> Group, \<open>ug_\<close> UserGroup, \<open>r_\<close> Resource,
  \<open>s_\<close> ResourceSharing), because several entities share attribute names
  (\<open>userId\<close>, \<open>name\<close>, \<open>resourceId\<close>, \<open>createdAt\<close>). Optional attributes
  (\<open>description\<close>) are options. The attribute \<open>shareType\<close> is declared as the
  enumeration \<open>['user', 'group', 'global']\<close>; \<open>shareTypeName\<close> gives the string of a value.
\<close>

datatype shareType = ShareUser | ShareGroup | ShareGlobal

fun shareTypeName :: "shareType \<Rightarrow> string" where
  "shareTypeName ShareUser = ''user''"
| "shareTypeName ShareGroup = ''group''"
| "shareTypeName ShareGlobal = ''global''"

record User =
  u_userId :: string
  u_email :: string
  u_name :: string
  u_createdAt :: string
  u_updatedAt :: string

record Group =
  g_groupId :: string
  g_name :: string
  g_description :: "string option"
  g_createdAt :: string
  g_updatedAt :: string

record UserGroup =
  ug_userId :: string
  ug_groupId :: string
  ug_joinedAt :: string

text \<open>
  A resource made by \<open>Resource.create\<close> has all its required attributes. An item made by
  \<open>Resource.update\<close> on a key that is not stored has only the attributes the update sets,
  so \<open>name\<close>, \<open>type\<close>, \<open>ownerId\<close> and \<open>createdAt\<close> are options too.
\<close>

record Resource =
  r_resourceId :: string
  r_name :: "string option"
  r_description :: "string option"
  r_type :: "string option"
  r_ownerId :: "string option"
  r_isGlobal :: bool
  r_createdAt :: "string option"
  r_updatedAt :: string

record ResourceSharing =
  s_resourceId :: string
  s_shareType :: shareType
  s_targetId :: string
  s_sharedBy :: string
  s_sharedAt :: string
  s_permissions :: "string list"

text \<open>
  The store (DynamoDB behind ElectroDB) is not part of the repository; the model keeps what
  the service can observe of it.
  \<^item> One list per entity holds the items of that entity, in the order of a scan. (User
    and UserGroup items share one table; a scan or a query of an entity returns items
    of that entity only.)
  \<^item> A key is built from the key attributes after normalising their letter case, so two
    values name the same key when their normalised forms are equal. The normalisation is
    the field \<open>casing\<close> of the store (ElectroDB's default is lower case); the attributes
    of an item keep the spelling they were written with.
  \<^item> A query on an index returns the items of one partition sorted by the sort key of the
    index, compared as strings (bytes). Items with equal sort keys keep their table order.
  \<^item> The service calls \<open>.go()\<close> once per scan or query and never follows a cursor, so it
    receives the first page only: a prefix of the result whose length the store decides,
    the field \<open>pageSize\<close>.
  The primary key of an entity identifies at most one item of its table; the theorems that
  need this say so.
\<close>

datatype query =
  UserScan
  | UserGroupPrimary string
  | UserGroupByGroup string
  | ResourceGlobalResources
  | SharingPrimary string
  | SharingByTarget string

record store =
  users :: "User list"
  groups :: "Group list"
  userGroups :: "UserGroup list"
  resources :: "Resource list"
  sharing :: "ResourceSharing list"
  casing :: "string \<Rightarrow> string"
  pageSize :: "query \<Rightarrow> nat"

text \<open>
  \<open>lowerCase\<close> turns the letters A to Z of a string into lower case: ElectroDB's default
  normalisation of key values, and the \<open>casing\<close> of the sample stores below.
\<close>

fun lowerChar :: "char \<Rightarrow> char" where
  "lowerChar (Char b0 b1 b2 b3 b4 b5 b6 b7) =
     (if CHR ''A'' \<le> Char b0 b1 b2 b3 b4 b5 b6 b7 \<and> Char b0 b1 b2 b3 b4 b5 b6 b7 \<le> CHR ''Z''
      then Char b0 b1 b2 b3 b4 True b6 b7
      else Char b0 b1 b2 b3 b4 b5 b6 b7)"

definition lowerCase :: "string \<Rightarrow> string" where
  "lowerCase = map lowerChar"

section \<open>Store operations used by the access service\<close>

definition keyEq :: "store \<Rightarrow> string \<Rightarrow> string \<Rightarrow> bool" where
  "keyEq s a b = (casing s a = casing s b)"

definition firstPage :: "store \<Rightarrow> query \<Rightarrow> 'a list \<Rightarrow> 'a list" where
  "firstPage s q items = take (pageSize s q) items"

definition User_get :: "store \<Rightarrow> string \<Rightarrow> User option" where
  "User_get s userId = find (\<lambda>u. keyEq s (u_userId u) userId) (users s)"

definition User_scan :: "store \<Rightarrow> User list" where
  "User_scan s = firstPage s UserScan (users s)"

definition Group_get :: "store \<Rightarrow> string \<Rightarrow> Group option" where
  "Group_get s groupId = find (\<lambda>g. keyEq s (g_groupId g) groupId) (groups s)"

text \<open>UserGroup: primary index (pk userId, sk groupId), index byGroup (pk groupId, sk userId).\<close>

definition UserGroup_primary_all :: "store \<Rightarrow> string \<Rightarrow> UserGroup list" where
  "UserGroup_primary_all s userId =
     sort_key (\<lambda>m. casing s (ug_groupId m))
       (filter (\<lambda>m. keyEq s (ug_userId m) userId) (userGroups s))"

definition UserGroup_primary :: "store \<Rightarrow> string \<Rightarrow> UserGroup list" where
  "UserGroup_primary s userId =
     firstPage s (UserGroupPrimary (casing s userId)) (UserGroup_primary_all s userId)"

definition UserGroup_byGroup_all :: "store \<Rightarrow> string \<Rightarrow> UserGroup list" where
  "UserGroup_byGroup_all s groupId =
     sort_key (\<lambda>m. casing s (ug_userId m))
       (filter (\<lambda>m. keyEq s (ug_groupId m) groupId) (userGroups s))"

definition UserGroup_byGroup :: "store \<Rightarrow> string \<Rightarrow> UserGroup list" where
  "UserGroup_byGroup s groupId =
     firstPage s (UserGroupByGroup (casing s groupId)) (UserGroup_byGroup_all s groupId)"

definition Resource_get :: "store \<Rightarrow> string \<Rightarrow> Resource option" where
  "Resource_get s resourceId = find (\<lambda>r. keyEq s (r_resourceId r) resourceId) (resources s)"

text \<open>
  Resource: index globalResources (pk isGlobal, sk createdAt). An item is in a secondary
  index only when it has the key attributes of the index, here \<open>createdAt\<close>.
\<close>

definition Resource_globalResources :: "store \<Rightarrow> Resource list" where
  "Resource_globalResources s =
     firstPage s ResourceGlobalResources
       (sort_key (\<lambda>r. map_option (casing s) (r_createdAt r))
          (filter (\<lambda>r. r_isGlobal r \<and> r_createdAt r \<noteq> None) (resources s)))"

text \<open>
  \<open>Resource.update({resourceId}).set({isGlobal, updatedAt})\<close> writes the key attribute and
  the two attributes it sets. When no item has the key, the store creates one with these
  attributes only.
\<close>

definition Resource_setGlobal :: "store \<Rightarrow> string \<Rightarrow> bool \<Rightarrow> string \<Rightarrow> store" where
  "Resource_setGlobal s resourceId b now =
     (if list_ex (\<lambda>r. keyEq s (r_resourceId r) resourceId) (resources s)
      then s\<lparr>resources :=
               map (\<lambda>r. if keyEq s (r_resourceId r) resourceId
                        then r\<lparr>r_resourceId := resourceId, r_isGlobal := b, r_updatedAt := now\<rparr>
                        else r)
                   (resources s)\<rparr>
      else s\<lparr>resources :=
               resources s @
                 [\<lparr>r_resourceId = resourceId, r_name = None, r_description = None,
                   r_type = None, r_ownerId = None, r_isGlobal = b, r_createdAt = None,
                   r_updatedAt = now\<rparr>]\<rparr>)"

text \<open>
  ResourceSharing: primary index (pk resourceId, sk shareType and targetId), index byTarget
  (pk targetId, sk resourceId). The sort key of the primary index is the string of the
  shareType followed by the targetId: rules with \<open>'global'\<close> come before rules with
  \<open>'group'\<close>, and these before rules with \<open>'user'\<close>.
\<close>

definition sharingSortKey :: "store \<Rightarrow> ResourceSharing \<Rightarrow> string \<times> string" where
  "sharingSortKey s g = (shareTypeName (s_shareType g), casing s (s_targetId g))"

definition ResourceSharing_primary_all :: "store \<Rightarrow> string \<Rightarrow> ResourceSharing list" where
  "ResourceSharing_primary_all s resourceId =
     sort_key (sharingSortKey s)
       (filter (\<lambda>g. keyEq s (s_resourceId g) resourceId) (sharing s))"

definition ResourceSharing_primary :: "store \<Rightarrow> string \<Rightarrow> ResourceSharing list" where
  "ResourceSharing_primary s resourceId =
     firstPage s (SharingPrimary (casing s resourceId)) (ResourceSharing_primary_all s resourceId)"

definition ResourceSharing_byTarget :: "store \<Rightarrow> string \<Rightarrow> ResourceSharing list" where
  "ResourceSharing_byTarget s targetId =
     firstPage s (SharingByTarget (casing s targetId))
       (sort_key (\<lambda>g. casing s (s_resourceId g))
          (filter (\<lambda>g. keyEq s (s_targetId g) targetId) (sharing s)))"

text \<open>The primary key of a sharing rule: (resourceId, shareType, targetId).\<close>

definition hasKey :: "store \<Rightarrow> string \<Rightarrow> shareType \<Rightarrow> string \<Rightarrow> ResourceSharing \<Rightarrow> bool" where
  "hasKey s resourceId st targetId g =
     (keyEq s (s_resourceId g) resourceId \<and> s_shareType g = st \<and> keyEq s (s_targetId g) targetId)"

datatype error =
  ResourceNotFound
  | UserNotFound
  | TargetUserNotFound
  | TargetGroupNotFound
  | ItemAlreadyExists

text \<open>
  \<open>ResourceSharing.create(item)\<close> inserts a new item and throws when an item with the
  same primary key is already stored: src/utils/setup.js wraps each \<open>create\<close> in a
  \<open>try\<close> whose \<open>catch\<close> reports "Sharing rule might already exist".
\<close>

definition ResourceSharing_create :: "store \<Rightarrow> ResourceSharing \<Rightarrow> error + store" where
  "ResourceSharing_create s item =
     (if list_ex (hasKey s (s_resourceId item) (s_shareType item) (s_targetId item)) (sharing s)
      then Inl ItemAlreadyExists
      else Inr (s\<lparr>sharing := sharing s @ [item]\<rparr>))"

text \<open>\<open>ResourceSharing.delete(key)\<close>: removes the item with that key; no error when absent.\<close>

definition ResourceSharing_delete :: "store \<Rightarrow> string \<Rightarrow> shareType \<Rightarrow> string \<Rightarrow> store" where
  "ResourceSharing_delete s resourceId st targetId =
     s\<lparr>sharing := filter (\<lambda>g. \<not> hasKey s resourceId st targetId g) (sharing s)\<rparr>"

section \<open>JavaScript \<open>Set\<close> of strings\<close>

text \<open>
  A \<open>Set\<close> keeps its members in insertion order, \<open>add\<close> of a member leaves it unchanged,
  and \<open>size\<close> is the number of members: a list without repetitions.
\<close>

definition Set_add :: "string \<Rightarrow> string list \<Rightarrow> string list" where
  "Set_add x xs = (if x \<in> set xs then xs else xs @ [x])"

definition Set_has :: "string list \<Rightarrow> string \<Rightarrow> bool" where
  "Set_has xs x = (x \<in> set xs)"

definition Set_size :: "string list \<Rightarrow> nat" where
  "Set_size xs = length xs"

section \<open>getResourceAccessList (src/services/accessService.js, lines 8-94)\<close>

text \<open>
  \<open>accessType\<close> is the string \<open>'direct'\<close>, \<open>'group'\<close> or \<open>'global'\<close> of an entry and
  \<open>'global'\<close> or \<open>'specific'\<close> of a result. An entry of \<open>accessDetails\<close> is an object
  literal; a field the literal does not set is \<open>None\<close>.
\<close>

datatype accessType = AccessDirect | AccessGroup | AccessGlobal | AccessSpecific

record AccessDetail =
  d_userId :: string
  d_accessType :: accessType
  d_groupId :: "string option"
  d_user :: User
  d_sharedBy :: "string option"
  d_sharedAt :: "string option"
  d_permissions :: "string list option"

record AccessList =
  al_resourceId :: string
  al_accessType :: accessType
  al_totalUsers :: nat
  al_users :: "AccessDetail list"

type_synonym accessAcc = "string list \<times> AccessDetail list"

text \<open>Lines 22-29: the body of \<open>allUsers.data.forEach\<close>.\<close>

definition globalStep :: "User \<Rightarrow> accessAcc \<Rightarrow> accessAcc" where
  "globalStep user acc =
     (case acc of (accessList, accessDetails) \<Rightarrow>
        (Set_add (u_userId user) accessList,
         accessDetails @
           [\<lparr>d_userId = u_userId user, d_accessType = AccessGlobal, d_groupId = None,
             d_user = user, d_sharedBy = None, d_sharedAt = None, d_permissions = None\<rparr>]))"

text \<open>Lines 65-81: the body of the loop over \<open>groupMembers.data\<close>.\<close>

definition memberStep :: "store \<Rightarrow> ResourceSharing \<Rightarrow> UserGroup \<Rightarrow> accessAcc \<Rightarrow> accessAcc" where
  "memberStep s rule member acc =
     (case acc of (accessList, accessDetails) \<Rightarrow>
        if \<not> Set_has accessList (ug_userId member) then
          (case User_get s (ug_userId member) of
             Some user \<Rightarrow>
               (Set_add (ug_userId member) accessList,
                accessDetails @
                  [\<lparr>d_userId = ug_userId member, d_accessType = AccessGroup,
                    d_groupId = Some (s_targetId rule), d_user = user,
                    d_sharedBy = Some (s_sharedBy rule), d_sharedAt = Some (s_sharedAt rule),
                    d_permissions = Some (s_permissions rule)\<rparr>])
           | None \<Rightarrow> acc)
        else acc)"

text \<open>Lines 44-83: the body of the loop over \<open>sharingRules.data\<close>.\<close>

definition ruleStep :: "store \<Rightarrow> ResourceSharing \<Rightarrow> accessAcc \<Rightarrow> accessAcc" where
  "ruleStep s rule acc =
     (case acc of (accessList, accessDetails) \<Rightarrow>
        (case s_shareType rule of
           ShareUser \<Rightarrow>
             (case User_get s (s_targetId rule) of
                Some user \<Rightarrow>
                  (Set_add (s_targetId rule) accessList,
                   accessDetails @
                     [\<lparr>d_userId = s_targetId rule, d_accessType = AccessDirect,
                       d_groupId = None, d_user = user,
                       d_sharedBy = Some (s_sharedBy rule), d_sharedAt = Some (s_sharedAt rule),
                       d_permissions = Some (s_permissions rule)\<rparr>])
              | None \<Rightarrow> acc)
         | ShareGroup \<Rightarrow>
             fold (memberStep s rule) (UserGroup_byGroup s (s_targetId rule)) acc
         | ShareGlobal \<Rightarrow> acc))"

definition getResourceAccessList :: "store \<Rightarrow> string \<Rightarrow> error + AccessList" where
  "getResourceAccessList s resourceId =
     (case Resource_get s resourceId of
        None \<Rightarrow> Inl ResourceNotFound
      | Some resource \<Rightarrow>
          if r_isGlobal resource then
            (case fold globalStep (User_scan s) ([], []) of
               (accessList, accessDetails) \<Rightarrow>
                 Inr \<lparr>al_resourceId = resourceId, al_accessType = AccessGlobal,
                      al_totalUsers = Set_size accessList, al_users = accessDetails\<rparr>)
          else
            (case fold (ruleStep s) (ResourceSharing_primary s resourceId) ([], []) of
               (accessList, accessDetails) \<Rightarrow>
                 Inr \<lparr>al_resourceId = resourceId, al_accessType = AccessSpecific,
                      al_totalUsers = Set_size accessList, al_users = accessDetails\<rparr>))"

section \<open>getUserResources (src/services/accessService.js, lines 100-192)\<close>

record ResourceDetail =
  rd_resource :: Resource
  rd_accessType :: accessType
  rd_groupId :: "string option"
  rd_sharedBy :: "string option"
  rd_sharedAt :: "string option"
  rd_permissions :: "string list"

record ResourceList =
  rl_userId :: string
  rl_totalResources :: nat
  rl_resources :: "ResourceDetail list"

type_synonym resourceAcc = "string list \<times> ResourceDetail list"

text \<open>Lines 138-152: the body of the loop over \<open>directShares.data\<close>.\<close>

definition directStep :: "store \<Rightarrow> ResourceSharing \<Rightarrow> resourceAcc \<Rightarrow> resourceAcc" where
  "directStep s share acc =
     (case acc of (resourceIds, resourcesOut) \<Rightarrow>
        if \<not> Set_has resourceIds (s_resourceId share) then
          (case Resource_get s (s_resourceId share) of
             Some resource \<Rightarrow>
               (Set_add (s_resourceId share) resourceIds,
                resourcesOut @
                  [\<lparr>rd_resource = resource, rd_accessType = AccessDirect, rd_groupId = None,
                    rd_sharedBy = Some (s_sharedBy share), rd_sharedAt = Some (s_sharedAt share),
                    rd_permissions = s_permissions share\<rparr>])
           | None \<Rightarrow> acc)
        else acc)"

text \<open>Lines 155-170: the body of the loop over \<open>groupShares\<close>.\<close>

definition groupStep :: "store \<Rightarrow> ResourceSharing \<Rightarrow> resourceAcc \<Rightarrow> resourceAcc" where
  "groupStep s share acc =
     (case acc of (resourceIds, resourcesOut) \<Rightarrow>
        if \<not> Set_has resourceIds (s_resourceId share) then
          (case Resource_get s (s_resourceId share) of
             Some resource \<Rightarrow>
               (Set_add (s_resourceId share) resourceIds,
                resourcesOut @
                  [\<lparr>rd_resource = resource, rd_accessType = AccessGroup,
                    rd_groupId = Some (s_targetId share),
                    rd_sharedBy = Some (s_sharedBy share), rd_sharedAt = Some (s_sharedAt share),
                    rd_permissions = s_permissions share\<rparr>])
           | None \<Rightarrow> acc)
        else acc)"

text \<open>Lines 173-182: the body of the loop over \<open>globalResources.data\<close>.\<close>

definition globalResourceStep :: "Resource \<Rightarrow> resourceAcc \<Rightarrow> resourceAcc" where
  "globalResourceStep resource acc =
     (case acc of (resourceIds, resourcesOut) \<Rightarrow>
        if \<not> Set_has resourceIds (r_resourceId resource) then
          (Set_add (r_resourceId resource) resourceIds,
           resourcesOut @
             [\<lparr>rd_resource = resource, rd_accessType = AccessGlobal, rd_groupId = None,
               rd_sharedBy = None, rd_sharedAt = None, rd_permissions = [''read'']\<rparr>])
        else acc)"

definition getUserResources :: "store \<Rightarrow> string \<Rightarrow> error + ResourceList" where
  "getUserResources s userId =
     (case User_get s userId of
        None \<Rightarrow> Inl UserNotFound
      | Some user \<Rightarrow>
          (let groupIds = map ug_groupId (UserGroup_primary s userId);
               directShares = ResourceSharing_byTarget s userId;
               groupShares = concat (map (ResourceSharing_byTarget s) groupIds);
               globalResources = Resource_globalResources s
           in case fold globalResourceStep globalResources
                     (fold (groupStep s) groupShares
                        (fold (directStep s) directShares ([], []))) of
                (resourceIds, resourcesOut) \<Rightarrow>
                  Inr \<lparr>rl_userId = userId, rl_totalResources = Set_size resourceIds,
                       rl_resources = resourcesOut\<rparr>))"

section \<open>shareResource and unshareResource (lines 242-306)\<close>

text \<open>
  Both take the store and the clock reading \<open>now\<close> (\<open>new Date().toISOString()\<close>) and
  return the store they leave behind; \<open>shareResource\<close> also returns the created rule or
  the error it throws. The writes of one call are separate store operations: the store
  returned with an error holds the writes made before the throw. One call of
  \<open>shareResource\<close> reads the clock for \<open>updatedAt\<close> (line 265) and again for the default
  of \<open>sharedAt\<close> in \<open>create\<close>; \<open>now\<close> stands for both readings.
\<close>

definition shareResource ::
  "store \<Rightarrow> string \<Rightarrow> shareType \<Rightarrow> string \<Rightarrow> string \<Rightarrow> string list \<Rightarrow> string
     \<Rightarrow> (error + ResourceSharing) \<times> store" where
  "shareResource s resourceId st targetId sharedBy permissions now =
     (case Resource_get s resourceId of
        None \<Rightarrow> (Inl ResourceNotFound, s)
      | Some resource \<Rightarrow>
          if st = ShareUser \<and> User_get s targetId = None then (Inl TargetUserNotFound, s)
          else if st = ShareGroup \<and> Group_get s targetId = None then (Inl TargetGroupNotFound, s)
          else
            (let targetId' = (if st = ShareGlobal then ''global'' else targetId);
                 s1 = (if st = ShareGlobal then Resource_setGlobal s resourceId True now else s);
                 item = \<lparr>s_resourceId = resourceId, s_shareType = st, s_targetId = targetId',
                         s_sharedBy = sharedBy, s_sharedAt = now, s_permissions = permissions\<rparr>
             in case ResourceSharing_create s1 item of
                  Inl e \<Rightarrow> (Inl e, s1)
                | Inr s2 \<Rightarrow> (Inr item, s2)))"

definition unshareResource :: "store \<Rightarrow> string \<Rightarrow> shareType \<Rightarrow> string \<Rightarrow> string \<Rightarrow> store" where
  "unshareResource s resourceId st targetId now =
     (let s1 = ResourceSharing_delete s resourceId st targetId
      in if st = ShareGlobal then Resource_setGlobal s1 resourceId False now else s1)"

section \<open>Quantities the properties speak about\<close>

subsection \<open>Users reached through the sharing rules of a resource\<close>











subsection \<open>The forward resolution of the specification\<close>





subsection \<open>The reverse resolution\<close>

text \<open>
  \<open>rid\<close> is the resourceId of the resource an entry of \<open>getUserResources\<close> embeds.
  \<open>mergeLoops\<close> is the three loops of lines 138-182 run on given lists, and
  \<open>resourcesResult\<close> the object returned from the state they end in (lines 184-188).
\<close>

definition rid :: "ResourceDetail \<Rightarrow> string" where
  "rid d = r_resourceId (rd_resource d)"




subsection \<open>Sharing rules and the global flag\<close>

text \<open>
  \<open>targetExists\<close> is the validation of \<open>shareResource\<close> (lines 251-260) and
  \<open>storedTarget\<close> the targetId it stores (line 262). \<open>globalConsistent\<close> is invariant I1 of
  the specification: each resource has \<open>isGlobal = true\<close> exactly when the rule
  (resourceId, global, 'global') is stored.
\<close>

definition targetExists :: "store \<Rightarrow> shareType \<Rightarrow> string \<Rightarrow> bool" where
  "targetExists s st targetId =
     (case st of
        ShareUser \<Rightarrow> User_get s targetId \<noteq> None
      | ShareGroup \<Rightarrow> Group_get s targetId \<noteq> None
      | ShareGlobal \<Rightarrow> True)"

definition storedTarget :: "shareType \<Rightarrow> string \<Rightarrow> string" where
  "storedTarget st targetId = (if st = ShareGlobal then ''global'' else targetId)"

definition globalGrantExists :: "store \<Rightarrow> string \<Rightarrow> bool" where
  "globalGrantExists s resourceId =
     list_ex (hasKey s resourceId ShareGlobal ''global'') (sharing s)"

definition globalConsistent :: "store \<Rightarrow> bool" where
  "globalConsistent s =
     list_all (\<lambda>r. r_isGlobal r = globalGrantExists s (r_resourceId r)) (resources s)"

subsection \<open>Dangling rules\<close>



subsection \<open>Membership in the two results\<close>

definition userInAccessList :: "store \<Rightarrow> string \<Rightarrow> string \<Rightarrow> bool" where
  "userInAccessList s resourceId userId =
     (case getResourceAccessList s resourceId of
        Inr al \<Rightarrow> userId \<in> set (map d_userId (al_users al))
      | Inl e \<Rightarrow> False)"

definition resourceInUserResources :: "store \<Rightarrow> string \<Rightarrow> string \<Rightarrow> bool" where
  "resourceInUserResources s userId resourceId =
     (case getUserResources s userId of
        Inr rl \<Rightarrow> resourceId \<in> set (map rid (rl_resources rl))
      | Inl e \<Rightarrow> False)"

section \<open>Sample stores\<close>

text \<open>
  \<open>sampleStore\<close> has the ids of the data of \<open>setupSampleData\<close> (src/utils/setup.js): five
  users, four groups, six memberships, five resources (resource3 with \<open>isGlobal = true\<close>) and
  the keys of its five sharing rules. Names, owners, \<open>sharedBy\<close> and \<open>permissions\<close> are
  the same for all items. Keys are normalised to lower case, and a page holds a hundred
  items, more than any table of the sample stores.
\<close>

definition sampleUser :: "string \<Rightarrow> User" where
  "sampleUser i = \<lparr>u_userId = i, u_email = i @ ''@example.com'', u_name = i,
                    u_createdAt = ''t0'', u_updatedAt = ''t0''\<rparr>"

definition sampleGroup :: "string \<Rightarrow> Group" where
  "sampleGroup i = \<lparr>g_groupId = i, g_name = i, g_description = None,
                     g_createdAt = ''t0'', g_updatedAt = ''t0''\<rparr>"

definition sampleMember :: "string \<Rightarrow> string \<Rightarrow> UserGroup" where
  "sampleMember u g = \<lparr>ug_userId = u, ug_groupId = g, ug_joinedAt = ''t0''\<rparr>"

definition sampleResource :: "string \<Rightarrow> bool \<Rightarrow> Resource" where
  "sampleResource i b = \<lparr>r_resourceId = i, r_name = Some i, r_description = None,
                          r_type = Some ''document'', r_ownerId = Some ''user1'', r_isGlobal = b,
                          r_createdAt = Some ''t0'', r_updatedAt = ''t0''\<rparr>"

definition sampleRule :: "string \<Rightarrow> shareType \<Rightarrow> string \<Rightarrow> ResourceSharing" where
  "sampleRule r st t = \<lparr>s_resourceId = r, s_shareType = st, s_targetId = t,
                         s_sharedBy = ''user1'', s_sharedAt = ''t1'', s_permissions = [''read'']\<rparr>"

definition samplePage :: "query \<Rightarrow> nat" where
  "samplePage q = 100"

definition sampleStore :: store where
  "sampleStore =
     \<lparr>users = [sampleUser ''user1'', sampleUser ''user2'', sampleUser ''user3'',
               sampleUser ''user4'', sampleUser ''user5''],
      groups = [sampleGroup ''group1'', sampleGroup ''group2'', sampleGroup ''group3'',
                sampleGroup ''group4''],
      userGroups = [sampleMember ''user1'' ''group1'', sampleMember ''user2'' ''group1'',
                    sampleMember ''user3'' ''group2'', sampleMember ''user4'' ''group2'',
                    sampleMember ''user4'' ''group3'', sampleMember ''user5'' ''group4''],
      resources = [sampleResource ''resource1'' False, sampleResource ''resource2'' False,
                   sampleResource ''resource3'' True, sampleResource ''resource4'' False,
                   sampleResource ''resource5'' False],
      sharing = [sampleRule ''resource1'' ShareGroup ''group1'',
                 sampleRule ''resource2'' ShareGroup ''group2'',
                 sampleRule ''resource4'' ShareUser ''user1'',
                 sampleRule ''resource4'' ShareUser ''user3'',
                 sampleRule ''resource5'' ShareGroup ''group4''],
      casing = lowerCase,
      pageSize = samplePage\<rparr>"


text \<open>
  resource2 is shared with group2, which has user4 as a member, and, by
  \<open>shareResource('RESOURCE2', 'user', 'user4', ...)\<close>, with user4 directly: the validation
  finds resource2 and the rule keeps the spelling of the call.
\<close>

definition storeUpperRule :: store where
  "storeUpperRule =
     sampleStore\<lparr>sharing := sharing sampleStore @ [sampleRule ''RESOURCE2'' ShareUser ''user4'']\<rparr>"





text \<open>
  Scenario D of the specification: u5 is a member of g1, and r1 is shared with u5
  (the first rule created) and with g1.
\<close>

definition storeD :: store where
  "storeD = \<lparr>users = [sampleUser ''u5''], groups = [sampleGroup ''g1''],
              userGroups = [sampleMember ''u5'' ''g1''],
              resources = [sampleResource ''r1'' False],
              sharing = [sampleRule ''r1'' ShareUser ''u5'', sampleRule ''r1'' ShareGroup ''g1''],
              casing = lowerCase, pageSize = samplePage\<rparr>"

text \<open>A user and a group created with the same id \<open>a1\<close> (both ids are chosen by the
  client, \<open>POST /users\<close> and \<open>POST /groups\<close>); r1 is shared with the group, which has no
  member.\<close>

definition storeSameId :: store where
  "storeSameId =
     \<lparr>users = [sampleUser ''a1''], groups = [sampleGroup ''a1''], userGroups = [],
      resources = [sampleResource ''r1'' False],
      sharing = [sampleRule ''r1'' ShareGroup ''a1''],
      casing = lowerCase, pageSize = samplePage\<rparr>"

section \<open>Evaluation\<close>

lemmas sample_defs = sampleUser_def sampleGroup_def sampleMember_def sampleResource_def
  sampleRule_def samplePage_def lowerCase_def

lemmas store_ops = keyEq_def firstPage_def User_get_def User_scan_def Group_get_def
  UserGroup_primary_all_def UserGroup_primary_def UserGroup_byGroup_all_def UserGroup_byGroup_def
  Resource_get_def Resource_globalResources_def Resource_setGlobal_def sharingSortKey_def
  ResourceSharing_primary_all_def ResourceSharing_primary_def ResourceSharing_byTarget_def
  hasKey_def ResourceSharing_create_def ResourceSharing_delete_def
  Set_add_def Set_has_def Set_size_def

lemmas forward_defs = getResourceAccessList_def ruleStep_def memberStep_def globalStep_def

lemmas reverse_defs = getUserResources_def directStep_def groupStep_def globalResourceStep_def


section \<open>The store\<close>









section \<open>The forward resolver\<close>

subsection \<open>The seen-set and the entries\<close>

















subsection \<open>Globally shared resources\<close>









lemma Resource_get_sharing [simp]: "Resource_get (s\<lparr>sharing := rules\<rparr>) = Resource_get s"
  by (rule ext) (simp add: Resource_get_def keyEq_def)

lemma User_get_sharing [simp]: "User_get (s\<lparr>sharing := rules\<rparr>) = User_get s"
  by (rule ext) (simp add: User_get_def keyEq_def)

lemma User_scan_sharing [simp]: "User_scan (s\<lparr>sharing := rules\<rparr>) = User_scan s"
  by (simp add: User_scan_def firstPage_def)





subsection \<open>Processing order\<close>


























text \<open>
  Claim C1 asks that a user with a direct rule and a group rule for one resource appears
  exactly once in the entries, with \<open>accessType = 'direct'\<close>. In \<open>storeD\<close> the store
  returns the group rule of r1 before its user rule: the group branch adds u5, and the
  user branch, which does not test \<open>accessList.has\<close>, pushes a second entry for u5.
  \<open>totalUsers\<close> is 1, the entries are two.
\<close>

theorem C1_duplicate_entry:
  "getResourceAccessList storeD ''r1'' =
     Inr \<lparr>al_resourceId = ''r1'', al_accessType = AccessSpecific, al_totalUsers = 1,
          al_users =
            [\<lparr>d_userId = ''u5'', d_accessType = AccessGroup, d_groupId = Some ''g1'',
              d_user = sampleUser ''u5'', d_sharedBy = Some ''user1'', d_sharedAt = Some ''t1'',
              d_permissions = Some [''read'']\<rparr>,
             \<lparr>d_userId = ''u5'', d_accessType = AccessDirect, d_groupId = None,
              d_user = sampleUser ''u5'', d_sharedBy = Some ''user1'', d_sharedAt = Some ''t1'',
              d_permissions = Some [''read'']\<rparr>]\<rparr>"
  by (simp add: storeD_def sample_defs store_ops forward_defs)

section \<open>The reverse resolver\<close>

text \<open>
  Claim C6 asks that \<open>getUserResources\<close> records a resource once, under the first path
  that reaches it. The loops compare the resourceId strings of the rules, while the
  store finds a resource whatever the letter case of the id. In \<open>storeUpperRule\<close> user4
  reaches resource2 directly, through the rule that spells it \<open>RESOURCE2\<close>, and through
  group2: resource2 is recorded twice, as direct and as group, and \<open>totalResources\<close> is 3
  for two resources.
\<close>

theorem C6_resource_recorded_twice:
  "getUserResources storeUpperRule ''user4'' =
     Inr \<lparr>rl_userId = ''user4'', rl_totalResources = 3,
          rl_resources =
            [\<lparr>rd_resource = sampleResource ''resource2'' False, rd_accessType = AccessDirect,
              rd_groupId = None, rd_sharedBy = Some ''user1'', rd_sharedAt = Some ''t1'',
              rd_permissions = [''read'']\<rparr>,
             \<lparr>rd_resource = sampleResource ''resource2'' False, rd_accessType = AccessGroup,
              rd_groupId = Some ''group2'', rd_sharedBy = Some ''user1'', rd_sharedAt = Some ''t1'',
              rd_permissions = [''read'']\<rparr>,
             \<lparr>rd_resource = sampleResource ''resource3'' True, rd_accessType = AccessGlobal,
              rd_groupId = None, rd_sharedBy = None, rd_sharedAt = None,
              rd_permissions = [''read'']\<rparr>]\<rparr>"
  by (simp add: storeUpperRule_def sampleStore_def sample_defs store_ops reverse_defs Let_def)

section \<open>Sharing and unsharing\<close>

lemma setGlobal_fields [simp]:
  "sharing (Resource_setGlobal s i b now) = sharing s"
  "casing (Resource_setGlobal s i b now) = casing s"
  "users (Resource_setGlobal s i b now) = users s"
  by (simp_all add: Resource_setGlobal_def)

lemma hasKey_setGlobal [simp]: "hasKey (Resource_setGlobal s i b now) = hasKey s"
  by (intro ext) (simp add: hasKey_def keyEq_def)

text \<open>
  Claim C9, as the code has it. When the resource and the target exist and a rule with
  the key (resourceId, shareType, stored targetId) is already stored, \<open>shareResource\<close>
  fails with the error of \<open>ResourceSharing.create\<close> and leaves every stored rule as it was:
  the \<open>permissions\<close>, \<open>sharedBy\<close> and \<open>sharedAt\<close> of the existing rule are not overwritten.
\<close>

theorem C9_create_rejects_existing_key:
  assumes "Resource_get s resourceId = Some resource"
    and "targetExists s st targetId"
    and "list_ex (hasKey s resourceId st (storedTarget st targetId)) (sharing s)"
  shows "fst (shareResource s resourceId st targetId sharedBy permissions now) = Inl ItemAlreadyExists
         \<and> sharing (snd (shareResource s resourceId st targetId sharedBy permissions now)) = sharing s"
  using assms
  by (cases st)
     (auto simp: shareResource_def targetExists_def storedTarget_def ResourceSharing_create_def
        Let_def)

text \<open>resource1 of the sample data is already shared with group1.\<close>

theorem C9_create_rejects_existing_key_witness:
  "Resource_get sampleStore ''resource1'' = Some (sampleResource ''resource1'' False)
   \<and> targetExists sampleStore ShareGroup ''group1''
   \<and> list_ex (hasKey sampleStore ''resource1'' ShareGroup (storedTarget ShareGroup ''group1''))
        (sharing sampleStore)
   \<and> fst (shareResource sampleStore ''resource1'' ShareGroup ''group1'' ''user2'' [''write''] ''t2'')
       = Inl ItemAlreadyExists
   \<and> sharing (snd (shareResource sampleStore ''resource1'' ShareGroup ''group1'' ''user2''
                     [''write''] ''t2'')) = sharing sampleStore"
proof -
  have h1: "Resource_get sampleStore ''resource1'' = Some (sampleResource ''resource1'' False)"
    by (simp add: sampleStore_def sample_defs store_ops)
  have h2: "targetExists sampleStore ShareGroup ''group1''"
    by (simp add: targetExists_def sampleStore_def sample_defs store_ops)
  have h3: "list_ex (hasKey sampleStore ''resource1'' ShareGroup (storedTarget ShareGroup ''group1''))
              (sharing sampleStore)"
    by (simp add: storedTarget_def sampleStore_def sample_defs store_ops)
  from C9_create_rejects_existing_key [OF h1 h2 h3, of "''user2''" "[''write'']" "''t2''"] h1 h2 h3
  show ?thesis by blast
qed

text \<open>
  Claim C9 as stated (sharing again succeeds and overwrites) fails: resource4 is already
  shared with user1, sharing it again returns the error, and the rules of resource4 are
  the ones stored before.
\<close>

theorem C9_share_again_fails:
  "fst (shareResource sampleStore ''resource4'' ShareUser ''user1'' ''user4'' [''read'', ''write''] ''t2'')
     = Inl ItemAlreadyExists
   \<and> ResourceSharing_primary
        (snd (shareResource sampleStore ''resource4'' ShareUser ''user1'' ''user4''
                [''read'', ''write''] ''t2'')) ''resource4''
     = [sampleRule ''resource4'' ShareUser ''user1'', sampleRule ''resource4'' ShareUser ''user3'']"
  by (simp add: shareResource_def sampleStore_def sample_defs store_ops Let_def)

lemma filter_hasKey_absent:
  "\<not> list_ex (hasKey s r st t) gs \<Longrightarrow> filter (\<lambda>g. \<not> hasKey s r st t g) gs = gs"
  by (simp add: list_ex_iff filter_id_conv)

lemma hasKey_sharing [simp]: "hasKey (s\<lparr>sharing := rules\<rparr>) = hasKey s"
  by (intro ext) (simp add: hasKey_def keyEq_def)

text \<open>
  Claim C8, as the code has it. For an existing resource and an existing user with no
  rule stored under the key (resourceId, user, userId), \<open>shareResource\<close> succeeds and the
  following \<open>unshareResource\<close> gives back the store as it was, hence the same result of
  \<open>getResourceAccessList\<close>.
\<close>

theorem C8_round_trip_fresh_key:
  assumes "Resource_get s resourceId = Some resource"
    and "User_get s userId = Some user"
    and "\<not> list_ex (hasKey s resourceId ShareUser userId) (sharing s)"
  shows "\<exists>rule s'. shareResource s resourceId ShareUser userId sharedBy permissions now = (Inr rule, s')
           \<and> unshareResource s' resourceId ShareUser userId now' = s
           \<and> getResourceAccessList (unshareResource s' resourceId ShareUser userId now') resourceId
               = getResourceAccessList s resourceId"
proof -
  let ?item = "\<lparr>s_resourceId = resourceId, s_shareType = ShareUser, s_targetId = userId,
                 s_sharedBy = sharedBy, s_sharedAt = now, s_permissions = permissions\<rparr>"
  let ?t = "s\<lparr>sharing := sharing s @ [?item]\<rparr>"
  have share: "shareResource s resourceId ShareUser userId sharedBy permissions now = (Inr ?item, ?t)"
    using assms by (simp add: shareResource_def ResourceSharing_create_def Let_def)
  have key: "hasKey s resourceId ShareUser userId ?item"
    by (simp add: hasKey_def keyEq_def)
  have undone: "unshareResource ?t resourceId ShareUser userId now' = s"
    using assms(3) key
    by (simp add: unshareResource_def ResourceSharing_delete_def Let_def filter_hasKey_absent)
  show ?thesis using share undone by simp
qed

text \<open>resource1 of the sample data is not shared with user3 directly.\<close>

theorem C8_round_trip_fresh_key_witness:
  "Resource_get sampleStore ''resource1'' = Some (sampleResource ''resource1'' False)
   \<and> User_get sampleStore ''user3'' = Some (sampleUser ''user3'')
   \<and> \<not> list_ex (hasKey sampleStore ''resource1'' ShareUser ''user3'') (sharing sampleStore)
   \<and> (\<exists>rule s'. shareResource sampleStore ''resource1'' ShareUser ''user3'' ''user1'' [''read''] ''t2''
                    = (Inr rule, s')
          \<and> unshareResource s' ''resource1'' ShareUser ''user3'' ''t3'' = sampleStore
          \<and> getResourceAccessList (unshareResource s' ''resource1'' ShareUser ''user3'' ''t3'')
               ''resource1'' = getResourceAccessList sampleStore ''resource1'')"
proof -
  have h1: "Resource_get sampleStore ''resource1'' = Some (sampleResource ''resource1'' False)"
    by (simp add: sampleStore_def sample_defs store_ops)
  have h2: "User_get sampleStore ''user3'' = Some (sampleUser ''user3'')"
    by (simp add: sampleStore_def sample_defs store_ops)
  have h3: "\<not> list_ex (hasKey sampleStore ''resource1'' ShareUser ''user3'') (sharing sampleStore)"
    by (simp add: sampleStore_def sample_defs store_ops)
  from C8_round_trip_fresh_key [OF h1 h2 h3, of "''user1''" "[''read'']" "''t2''" "''t3''"] h1 h2 h3
  show ?thesis by blast
qed

text \<open>
  Claim C8 as stated (for every existing resource and user) fails when the rule is
  already stored: resource4 is shared with user1, \<open>shareResource\<close> changes nothing, and
  \<open>unshareResource\<close> deletes the rule that was there before.
\<close>

theorem C8_pre_existing_grant:
  "getResourceAccessList
     (unshareResource
        (snd (shareResource sampleStore ''resource4'' ShareUser ''user1'' ''user2'' [''read''] ''t2''))
        ''resource4'' ShareUser ''user1'' ''t3'')
     ''resource4''
   \<noteq> getResourceAccessList sampleStore ''resource4''"
  by (simp add: shareResource_def unshareResource_def sampleStore_def sample_defs store_ops
      forward_defs Let_def)

subsection \<open>The global flag and the global rule\<close>

text \<open>
  Claim C3 asks that every call of \<open>shareResource\<close> and \<open>unshareResource\<close> keeps invariant
  I1. \<open>shareResource\<close> with shareType global stores the rule under the targetId
  \<open>'global'\<close> whatever targetId it is given; \<open>unshareResource\<close> deletes the key with the
  targetId it is given and then sets \<open>isGlobal = false\<close>. Sharing r1 globally with
  targetId \<open>'everyone'\<close> and unsharing it with the same arguments leaves the global rule
  stored and \<open>isGlobal\<close> false.
\<close>

theorem C3_unshare_breaks_invariant:
  "globalConsistent storeD
   \<and> globalConsistent
        (snd (shareResource storeD ''r1'' ShareGlobal ''everyone'' ''u5'' [''read''] ''t2''))
   \<and> \<not> globalConsistent
          (unshareResource
             (snd (shareResource storeD ''r1'' ShareGlobal ''everyone'' ''u5'' [''read''] ''t2''))
             ''r1'' ShareGlobal ''everyone'' ''t3'')"
  by (simp add: globalConsistent_def globalGrantExists_def shareResource_def unshareResource_def
      storeD_def sample_defs store_ops Let_def)

section \<open>Rules that reference deleted entities\<close>























section \<open>Forward and reverse resolution compared\<close>

text \<open>
  Claim C7 asks that a user is in the access list of a resource exactly when the resource
  is among the user's resources. \<open>getUserResources\<close> takes every rule whose targetId is the
  userId as a direct share, whatever its shareType; \<open>getResourceAccessList\<close> reads the
  shareType. In \<open>storeSameId\<close> the rule (r1, group, a1) makes r1 a resource of user a1, who
  is not in the access list of r1.
\<close>

theorem C7_same_id_asymmetry:
  "User_get storeSameId ''a1'' = Some (sampleUser ''a1'')
   \<and> Resource_get storeSameId ''r1'' = Some (sampleResource ''r1'' False)
   \<and> \<not> userInAccessList storeSameId ''r1'' ''a1''
   \<and> resourceInUserResources storeSameId ''a1'' ''r1''"
  by (simp add: userInAccessList_def resourceInUserResources_def storeSameId_def sample_defs
      store_ops forward_defs reverse_defs rid_def Let_def)

end
